theory Spec2Isabelle
  imports Complex_Main "HOL-Library.Sublist"
begin

section \<open>The front end of the price predictor (src/frontend/app.js)\<close>

text \<open>
  A shallow embedding of \<^verbatim>\<open>app.js\<close>: the mock estimator
  (\<^verbatim>\<open>generateMockPrediction\<close>, \<^verbatim>\<open>getMockCoordinates\<close>,
  \<^verbatim>\<open>generateMockComparables\<close>), the renderers (\<^verbatim>\<open>displayResults\<close>,
  \<^verbatim>\<open>updateMap\<close>, \<^verbatim>\<open>clearMarkers\<close>), the map set-up (\<^verbatim>\<open>initMap\<close>)
  and the prediction client (\<^verbatim>\<open>predictPrice\<close>).

  Conventions of the embedding.
  \<^item> A JavaScript number is an exact rational (\<^typ>\<open>rat\<close>): the arithmetic of the
    source is read as exact arithmetic, so the rounding error of IEEE doubles and the
    values NaN and Infinity are outside the model. \<^verbatim>\<open>parseInt\<close> results are
    \<^typ>\<open>int\<close>.
  \<^item> A JavaScript string is a \<^typ>\<open>string\<close> of ASCII characters;
    \<^verbatim>\<open>toLowerCase\<close> maps \<^verbatim>\<open>A-Z\<close> to \<^verbatim>\<open>a-z\<close> and leaves every
    other character alone.
  \<^item> \<^verbatim>\<open>Math.random()\<close> reads the next element of a sequence of draws that is
    threaded through the functions in the order in which the source calls it.
  \<^item> The module variables \<^verbatim>\<open>map\<close>, \<^verbatim>\<open>markers\<close>,
    \<^verbatim>\<open>predictionMarker\<close> and the page elements the code writes are fields of one
    state record that every function takes and returns. The page is taken to contain
    the elements the code looks up by id.
  \<^item> A function that can throw returns a completion beside the state: \<open>Normal\<close>, or
    the error thrown, with the state as the statements before the throw left it.
  \<^item> Console output is not modelled. \<^verbatim>\<open>loadLocations\<close>, \<^verbatim>\<open>focusComparable\<close>
    and \<^verbatim>\<open>handleFormSubmit\<close> are not needed for the properties below and are
    left out.
\<close>

subsection \<open>Numbers, random draws, strings\<close>

definition Math_round :: "rat \<Rightarrow> rat" where
  \<comment> \<open>\<^verbatim>\<open>Math.round\<close>: the nearest integer, a tie going up.\<close>
  "Math_round x = of_int \<lfloor>x + 1 / 2\<rfloor>"

type_synonym rng = "(nat \<Rightarrow> rat) \<times> nat"

definition Math_random :: "rng \<Rightarrow> rat \<times> rng" where
  \<comment> \<open>the next draw, and the generator moved on by one\<close>
  "Math_random g = (fst g (snd g), (fst g, Suc (snd g)))"


definition toLowerCase_char :: "char \<Rightarrow> char" where
  "toLowerCase_char c =
     (let n = (of_char c :: nat) in if 65 \<le> n \<and> n \<le> 90 then char_of (n + 32) else c)"

definition toLowerCase :: "string \<Rightarrow> string" where
  "toLowerCase s = map toLowerCase_char s"

fun startsWith :: "string \<Rightarrow> string \<Rightarrow> bool" where
  "startsWith s [] = True"
| "startsWith [] (c # t) = False"
| "startsWith (d # s) (c # t) = (d = c \<and> startsWith s t)"

fun string_includes :: "string \<Rightarrow> string \<Rightarrow> bool" where
  \<comment> \<open>\<^verbatim>\<open>s.includes(t)\<close>: \<open>t\<close> occurs in \<open>s\<close> as a run of consecutive characters\<close>
  "string_includes [] t = (t = [])"
| "string_includes (d # s) t = (startsWith (d # s) t \<or> string_includes s t)"

subsection \<open>The data model\<close>

text \<open>
  The request \<^verbatim>\<open>handleFormSubmit\<close> builds from the form: the numeric fields are what
  \<^verbatim>\<open>parseFloat\<close> and \<^verbatim>\<open>parseInt\<close> return for well-formed input.
\<close>

record formData =
  location :: string
  total_sqft :: rat
  bhk :: int
  bath :: int
  balcony :: int
  area_type :: string

record lat_lng =
  latitude :: rat
  longitude :: rat

record interval =
  lower :: rat
  upper :: rat

record comparable =
  comp_location :: string
  comp_bhk :: int
  comp_total_sqft :: rat
  price_per_sqft :: rat
  distance_km :: rat
  comp_latitude :: rat
  comp_longitude :: rat

text \<open>
  Text that the code builds with a template literal is a list of pieces: the literal
  parts, and the numbers it formats, each tagged with the conversion the source applies
  (\<^verbatim>\<open>${x}\<close>, \<^verbatim>\<open>x.toLocaleString()\<close>, \<^verbatim>\<open>x.toFixed(d)\<close>), whose
  digits depend on the host and are not computed here.
\<close>

datatype piece = Lit string | ToString rat | ToLocaleString rat | ToFixed rat nat

type_synonym template = "piece list"

definition rupee :: string where
  \<comment> \<open>the rupee sign U+20B9, as the bytes of the source file\<close>
  "rupee = [char_of (0xE2 :: nat), char_of (0x82 :: nat), char_of (0xB9 :: nat)]"

definition bullet :: string where
  \<comment> \<open>the bullet U+2022, as the bytes of the source file\<close>
  "bullet = [char_of (0xE2 :: nat), char_of (0x80 :: nat), char_of (0xA2 :: nat)]"

text \<open>
  A result, from the backend or from the mock estimator. The formatted price is text (one
  literal in a result of the backend). The list of comparables can be missing in a result
  of the backend, which is what the renderers test for; the mock estimator always sets it.
\<close>

record prediction_result =
  success :: bool
  result_location :: string
  coordinates :: lat_lng
  predicted_price_per_sqft :: rat
  total_estimated_price :: rat
  total_estimated_price_formatted :: template
  confidence_interval :: interval
  nearby_comparables :: "comparable list option"

subsection \<open>The mock estimator\<close>

definition locationMap :: "(string \<times> rat \<times> rat) list" where
  \<comment> \<open>\<^verbatim>\<open>Object.entries(locationMap)\<close>: the entries in the order they are written\<close>
  "locationMap =
    [(''Whitefield'', 12.9698, 77.7500),
     (''Koramangala'', 12.9349, 77.6175),
     (''Electronic City'', 12.8399, 77.6770),
     (''HSR Layout'', 12.9122, 77.6414),
     (''Marathahalli'', 12.9591, 77.6971),
     (''Indiranagar'', 12.9719, 77.6412),
     (''Jayanagar'', 12.9250, 77.5820),
     (''Hebbal'', 13.0358, 77.5970),
     (''Sarjapur Road'', 12.9087, 77.6857),
     (''Bellandur'', 12.9261, 77.6798),
     (''JP Nagar'', 12.9064, 77.5857),
     (''Bannerghatta Road'', 12.8879, 77.5967)]"

fun findMatch :: "(string \<times> rat \<times> rat) list \<Rightarrow> string \<Rightarrow> (rat \<times> rat) option" where
  \<comment> \<open>the \<^verbatim>\<open>for\<close> loop of \<^verbatim>\<open>getMockCoordinates\<close>, returning at the first match\<close>
  "findMatch [] normalizedLoc = None"
| "findMatch ((key, coords) # entries) normalizedLoc =
     (if string_includes (toLowerCase key) normalizedLoc \<or> string_includes normalizedLoc (toLowerCase key)
      then Some coords
      else findMatch entries normalizedLoc)"

definition getMockCoordinates :: "string \<Rightarrow> rng \<Rightarrow> (rat \<times> rat) \<times> rng" where
  "getMockCoordinates loc g =
     (let normalizedLoc = toLowerCase loc in
      case findMatch locationMap normalizedLoc of
        Some coords \<Rightarrow> (coords, g)
      | None \<Rightarrow>
         (let (r1, g1) = Math_random g;
              (r2, g2) = Math_random g1
          in ((12.9716 + (r1 - 0.5) * 0.15, 77.5946 + (r2 - 0.5) * 0.15), g2)))"

definition locations :: "string list" where
  "locations = [''Near Location'', ''Nearby Area'', ''Close By'', ''Adjacent'']"

definition mockComparable :: "nat \<Rightarrow> rat \<times> rat \<Rightarrow> int \<Rightarrow> rng \<Rightarrow> comparable \<times> rng" where
  \<comment> \<open>the object pushed by one turn of the loop; the draws in the order of its fields\<close>
  "mockComparable i coords b g =
     (let (r1, g1) = Math_random g;
          (r2, g2) = Math_random g1;
          (r3, g3) = Math_random g2;
          (r4, g4) = Math_random g3;
          (r5, g5) = Math_random g4
      in (\<lparr>comp_location = locations ! i,
           comp_bhk = b,
           comp_total_sqft = 1000 + Math_round (r1 * 1000),
           price_per_sqft = 5000 + Math_round (r2 * 3000),
           distance_km = Math_round ((0.5 + r3 * 2) * 10) / 10,
           comp_latitude = fst coords + (r4 - 0.5) * 0.02,
           comp_longitude = snd coords + (r5 - 0.5) * 0.02\<rparr>, g5))"

function comparablesLoop ::
  "nat \<Rightarrow> rat \<times> rat \<Rightarrow> int \<Rightarrow> comparable list \<Rightarrow> rng \<Rightarrow> comparable list \<times> rng" where
  "comparablesLoop i coords b comparables g =
     (if i < 4 then
        (let (c, g') = mockComparable i coords b g
         in comparablesLoop (Suc i) coords b (comparables @ [c]) g')
      else (comparables, g))"
  by pat_completeness auto
termination
  by (relation "measure (\<lambda>(i, coords, b, comparables, g). 4 - i)") auto

declare comparablesLoop.simps [simp del]

definition generateMockComparables ::
  "rat \<times> rat \<Rightarrow> int \<Rightarrow> rng \<Rightarrow> comparable list \<times> rng" where
  \<comment> \<open>\<^verbatim>\<open>sort\<close> with the comparator \<^verbatim>\<open>a.distance_km - b.distance_km\<close>\<close>
  "generateMockComparables coords b g =
     (let (comparables, g') = comparablesLoop 0 coords b [] g
      in (sort_key distance_km comparables, g'))"

definition bhkMultiplier :: "formData \<Rightarrow> rat" where
  "bhkMultiplier fd = 1 + (of_int (bhk fd) - 2) * 0.15"

definition sizeMultiplier :: "formData \<Rightarrow> rat" where
  "sizeMultiplier fd = (if total_sqft fd < 1000 then 1.1 else if total_sqft fd > 2000 then 0.9 else 1)"

definition basePrice :: rat where
  "basePrice = 6500"

definition pricePerSqft :: "formData \<Rightarrow> rat \<Rightarrow> rat" where
  \<comment> \<open>\<open>r\<close> is the value \<^verbatim>\<open>Math.random()\<close> returned\<close>
  "pricePerSqft fd r = basePrice * bhkMultiplier fd * sizeMultiplier fd + (r - 0.5) * 1000"

definition totalPrice :: "formData \<Rightarrow> rat \<Rightarrow> rat" where
  "totalPrice fd r = pricePerSqft fd r * total_sqft fd"

definition generateMockPrediction :: "formData \<Rightarrow> rng \<Rightarrow> prediction_result \<times> rng" where
  "generateMockPrediction fd g =
     (let (mockCoords, g1) = getMockCoordinates (location fd) g;
          (r, g2) = Math_random g1;
          (comparables, g3) = generateMockComparables mockCoords (bhk fd) g2
      in (\<lparr>success = True,
           result_location = location fd,
           coordinates = \<lparr>latitude = fst mockCoords, longitude = snd mockCoords\<rparr>,
           predicted_price_per_sqft = Math_round (pricePerSqft fd r * 100) / 100,
           total_estimated_price = Math_round (totalPrice fd r * 100) / 100,
           total_estimated_price_formatted =
             [Lit rupee, ToFixed (totalPrice fd r / 100000) 2, Lit '' Lakhs''],
           confidence_interval =
             \<lparr>lower = Math_round (pricePerSqft fd r * 0.85 * 100) / 100,
              upper = Math_round (pricePerSqft fd r * 1.15 * 100) / 100\<rparr>,
           nearby_comparables = Some comparables\<rparr>, g3))"

subsection \<open>The map widget and the page\<close>

text \<open>
  The Leaflet map is an object of a library outside the repository. The model keeps what
  the calls of \<^verbatim>\<open>app.js\<close> do to it: the layers added and not yet removed, the popup
  that is open, and the last view that was asked for. Every object the library creates
  has an identity, the stamp \<open>next_id\<close> hands out; \<^verbatim>\<open>removeLayer\<close> removes the
  object it is given and nothing else. The mark-up of an icon is fixed text and is left
  out; of the mark-up of a popup and of a list entry, the white space between the tags
  is left out.
\<close>

record icon =
  className :: string
  iconSize :: "nat \<times> nat"
  iconAnchor :: "nat \<times> nat"

record marker =
  marker_id :: nat
  latlng :: "rat \<times> rat"
  marker_icon :: icon
  popup :: template

datatype layer = TileLayer nat string | MarkerLayer marker

fun layer_id :: "layer \<Rightarrow> nat" where
  "layer_id (TileLayer n url) = n"
| "layer_id (MarkerLayer mk) = marker_id mk"

datatype map_view = SetView "rat \<times> rat" nat | FitBounds "(rat \<times> rat) list" rat

record leaflet_map =
  view :: map_view
  layers :: "layer list"
  open_popup :: "nat option"

definition addLayer :: "layer \<Rightarrow> leaflet_map \<Rightarrow> leaflet_map" where
  \<comment> \<open>\<^verbatim>\<open>layer.addTo(map)\<close>; a layer that is on the map already is not added again\<close>
  "addLayer l m =
     (if layer_id l \<in> set (map layer_id (layers m)) then m
      else m\<lparr>layers := layers m @ [l]\<rparr>)"

definition removeLayer :: "marker \<Rightarrow> leaflet_map \<Rightarrow> leaflet_map" where
  \<comment> \<open>\<^verbatim>\<open>map.removeLayer(marker)\<close>; the popup of a removed marker is closed\<close>
  "removeLayer mk m =
     m\<lparr>layers := filter (\<lambda>l. layer_id l \<noteq> marker_id mk) (layers m),
       open_popup := (if open_popup m = Some (marker_id mk) then None else open_popup m)\<rparr>"

definition openPopup :: "marker \<Rightarrow> leaflet_map \<Rightarrow> leaflet_map" where
  \<comment> \<open>\<^verbatim>\<open>marker.openPopup()\<close> for a marker on the map: its popup replaces the open one\<close>
  "openPopup mk m = m\<lparr>open_popup := Some (marker_id mk)\<rparr>"

definition setView :: "rat \<times> rat \<Rightarrow> nat \<Rightarrow> leaflet_map \<Rightarrow> leaflet_map" where
  "setView center zoom m = m\<lparr>view := SetView center zoom\<rparr>"

definition fitBounds :: "(rat \<times> rat) list \<Rightarrow> rat \<Rightarrow> leaflet_map \<Rightarrow> leaflet_map" where
  \<comment> \<open>\<^verbatim>\<open>map.fitBounds(group.getBounds().pad(ratio))\<close> for the group of markers at \<open>points\<close>\<close>
  "fitBounds points ratio m = m\<lparr>view := FitBounds points ratio\<rparr>"

definition markers_of :: "layer list \<Rightarrow> marker list" where
  "markers_of ls = concat (map (\<lambda>l. case l of MarkerLayer mk \<Rightarrow> [mk] | TileLayer n url \<Rightarrow> []) ls)"

definition markers_on :: "leaflet_map \<Rightarrow> marker list" where
  \<comment> \<open>the markers the map holds, in the order they were added\<close>
  "markers_on m = markers_of (layers m)"

record comparable_item =
  item_className :: string
  item_onclick :: comparable
  item_innerHTML :: template

datatype container = Children "comparable_item list" | InnerHTML string

record dom =
  results_hidden :: bool
  total_price :: template
  price_per_sqft_text :: template
  ci_lower :: template
  ci_upper :: template
  comparables_list :: container
  loading_hidden :: bool

record app_state =
  page :: dom
  map_widget :: "leaflet_map option"
  markers :: "marker list"
  predictionMarker :: "marker option"
  next_id :: nat

datatype js_error = TypeError | SyntaxError | Error string

datatype completion = Normal | Throw js_error

fun seq ::
  "completion \<times> app_state \<Rightarrow> (app_state \<Rightarrow> completion \<times> app_state) \<Rightarrow> completion \<times> app_state" where
  \<comment> \<open>one statement after another: a throw skips what follows\<close>
  "seq (Normal, st) f = f st"
| "seq (Throw e, st) f = (Throw e, st)"

definition withMap :: "(leaflet_map \<Rightarrow> leaflet_map) \<Rightarrow> app_state \<Rightarrow> completion \<times> app_state" where
  \<comment> \<open>a method call on the variable \<^verbatim>\<open>map\<close>, a TypeError while it is \<^verbatim>\<open>null\<close>\<close>
  "withMap f st =
     (case map_widget st of
        None \<Rightarrow> (Throw TypeError, st)
      | Some m \<Rightarrow> (Normal, st\<lparr>map_widget := Some (f m)\<rparr>))"

definition L_marker :: "rat \<times> rat \<Rightarrow> icon \<Rightarrow> template \<Rightarrow> app_state \<Rightarrow> marker \<times> app_state" where
  \<comment> \<open>\<^verbatim>\<open>L.marker(coords, {icon})\<close> with the popup \<^verbatim>\<open>bindPopup\<close> gives it: a new object\<close>
  "L_marker coords ic content st =
     (\<lparr>marker_id = next_id st, latlng = coords, marker_icon = ic, popup = content\<rparr>,
      st\<lparr>next_id := Suc (next_id st)\<rparr>)"

record popup_data =
  data_title :: template
  data_details :: "template option"
  data_price :: "template option"
  data_pricePerSqft :: "template option"
  data_distance :: "template option"

fun truthy :: "template option \<Rightarrow> bool" where
  \<comment> \<open>a string is truthy unless it is missing or empty\<close>
  "truthy None = False"
| "truthy (Some t) = list_ex (\<lambda>p. p \<noteq> Lit []) t"

definition createPopupContent :: "popup_data \<Rightarrow> template" where
  "createPopupContent data =
     [Lit ''<div class=\"popup-title\">''] @ data_title data @ [Lit ''</div>'']
     @ (if truthy (data_details data)
        then [Lit ''<div class=\"popup-details\">''] @ the (data_details data) @ [Lit ''</div>''] else [])
     @ (if truthy (data_price data)
        then [Lit ''<div class=\"popup-price\">''] @ the (data_price data) @ [Lit ''</div>''] else [])
     @ (if truthy (data_pricePerSqft data)
        then [Lit ''<div class=\"popup-details\">''] @ the (data_pricePerSqft data) @ [Lit ''</div>''] else [])
     @ (if truthy (data_distance data)
        then [Lit ''<div class=\"popup-details\" style=\"color: var(--text-muted);\">'']
             @ the (data_distance data) @ [Lit ''</div>'']
        else [])"

subsection \<open>Map initialisation\<close>

definition BANGALORE_CENTER :: "rat \<times> rat" where
  "BANGALORE_CENTER = (12.9716, 77.5946)"

definition DEFAULT_ZOOM :: nat where
  "DEFAULT_ZOOM = 11"

definition TILE_URL :: string where
  "TILE_URL = ''https://{s}.basemaps.cartocdn.com/dark_all/{z}/{x}/{y}{r}.png''"

definition initial_state :: "dom \<Rightarrow> app_state" where
  \<comment> \<open>the module variables as they are declared, on a page as it was loaded\<close>
  "initial_state d =
     \<lparr>page = d, map_widget = None, markers = [], predictionMarker = None, next_id = 0\<rparr>"

definition addCenterMarker :: "app_state \<Rightarrow> completion \<times> app_state" where
  "addCenterMarker st =
     (let pulsingIcon = \<lparr>className = ''pulsing-marker'', iconSize = (20, 20), iconAnchor = (10, 10)\<rparr>;
          (mk, st1) = L_marker BANGALORE_CENTER pulsingIcon
             (createPopupContent
               \<lparr>data_title = [Lit ''Bangalore City Center''],
                data_details = Some [Lit ''Enter property details to get a price prediction''],
                data_price = None, data_pricePerSqft = None, data_distance = None\<rparr>) st
      in seq (withMap (addLayer (MarkerLayer mk)) st1)
           (\<lambda>st2. (Normal, st2\<lparr>predictionMarker := Some mk\<rparr>)))"

definition initMap :: "app_state \<Rightarrow> completion \<times> app_state" where
  "initMap st =
     (let st1 = st\<lparr>map_widget :=
                   Some \<lparr>view = SetView BANGALORE_CENTER DEFAULT_ZOOM, layers = [], open_popup = None\<rparr>\<rparr>;
          tiles = TileLayer (next_id st1) TILE_URL;
          st2 = st1\<lparr>next_id := Suc (next_id st1)\<rparr>
      in seq (withMap (addLayer tiles) st2) addCenterMarker)"

subsection \<open>Rendering a result\<close>

definition comparableItem :: "comparable \<Rightarrow> comparable_item" where
  "comparableItem cmp =
     \<lparr>item_className = ''comparable-item'',
      item_onclick = cmp,
      item_innerHTML =
        [Lit ''<div class=\"comparable-info\"><div class=\"comparable-location\">'',
         Lit (comp_location cmp),
         Lit ''</div><div class=\"comparable-details\">'',
         ToString (of_int (comp_bhk cmp)), Lit '' BHK '', Lit bullet, Lit '' '',
         ToLocaleString (comp_total_sqft cmp), Lit '' sq.ft '', Lit bullet, Lit '' '',
         ToString (distance_km cmp), Lit '' km</div></div><div class=\"comparable-price\">'',
         Lit rupee, ToLocaleString (price_per_sqft cmp), Lit ''</div>'']\<rparr>"

definition displayResults :: "prediction_result \<Rightarrow> app_state \<Rightarrow> app_state" where
  "displayResults result st =
     st\<lparr>page := (page st)
        \<lparr>results_hidden := False,
         total_price := total_estimated_price_formatted result,
         price_per_sqft_text :=
           [Lit rupee, ToLocaleString (predicted_price_per_sqft result), Lit '' per sq.ft''],
         ci_lower := [Lit rupee, ToLocaleString (lower (confidence_interval result))],
         ci_upper := [Lit rupee, ToLocaleString (upper (confidence_interval result))],
         comparables_list :=
           (case nearby_comparables result of
              Some (cmp # comps) \<Rightarrow> Children (map comparableItem (cmp # comps))
            | _ \<Rightarrow> InnerHTML
                ''<p style=\"color: var(--text-muted); font-size: 13px;\">No comparable properties found</p>'')\<rparr>\<rparr>"

fun removeEach :: "marker list \<Rightarrow> app_state \<Rightarrow> completion \<times> app_state" where
  \<comment> \<open>\<^verbatim>\<open>markers.forEach(marker => map.removeLayer(marker))\<close>\<close>
  "removeEach [] st = (Normal, st)"
| "removeEach (mk # mks) st = seq (withMap (removeLayer mk) st) (removeEach mks)"

definition clearMarkers :: "app_state \<Rightarrow> completion \<times> app_state" where
  "clearMarkers st =
     seq (removeEach (markers st) st)
       (\<lambda>st1. let st2 = st1\<lparr>markers := []\<rparr> in
          case predictionMarker st2 of
            None \<Rightarrow> (Normal, st2)
          | Some p \<Rightarrow>
              seq (withMap (removeLayer p) st2)
                (\<lambda>st3. (Normal, st3\<lparr>predictionMarker := None\<rparr>)))"

definition comparableMarker :: "comparable \<Rightarrow> app_state \<Rightarrow> completion \<times> app_state" where
  \<comment> \<open>the body of the \<^verbatim>\<open>forEach\<close> of \<^verbatim>\<open>updateMap\<close>\<close>
  "comparableMarker cmp st =
     (let compIcon = \<lparr>className = ''comparable-marker-icon'', iconSize = (14, 14), iconAnchor = (7, 7)\<rparr>;
          (mk, st1) = L_marker (comp_latitude cmp, comp_longitude cmp) compIcon
             (createPopupContent
               \<lparr>data_title = [Lit (comp_location cmp)],
                data_details = Some [ToString (of_int (comp_bhk cmp)), Lit '' BHK '', Lit bullet, Lit '' '',
                                ToLocaleString (comp_total_sqft cmp), Lit '' sq.ft''],
                data_price = None,
                data_pricePerSqft = Some [Lit rupee, ToLocaleString (price_per_sqft cmp), Lit ''/sq.ft''],
                data_distance = Some [ToString (distance_km cmp), Lit '' km away'']\<rparr>) st
      in seq (withMap (addLayer (MarkerLayer mk)) st1)
           (\<lambda>st2. (Normal, st2\<lparr>markers := markers st2 @ [mk]\<rparr>)))"

fun comparableMarkers :: "comparable list \<Rightarrow> app_state \<Rightarrow> completion \<times> app_state" where
  "comparableMarkers [] st = (Normal, st)"
| "comparableMarkers (cmp # comps) st = seq (comparableMarker cmp st) (comparableMarkers comps)"

definition placeMarkers :: "prediction_result \<Rightarrow> app_state \<Rightarrow> completion \<times> app_state" where
  \<comment> \<open>the statements of \<^verbatim>\<open>updateMap\<close> after the call of \<^verbatim>\<open>clearMarkers\<close>\<close>
  "placeMarkers result st =
     (let coords = (latitude (coordinates result), longitude (coordinates result));
          predictionIcon =
            \<lparr>className = ''prediction-marker-icon'', iconSize = (24, 24), iconAnchor = (12, 12)\<rparr>;
          (mk, st1) = L_marker coords predictionIcon
             (createPopupContent
               \<lparr>data_title = [Lit (result_location result)],
                data_details = None,
                data_price = Some (total_estimated_price_formatted result),
                data_pricePerSqft =
                  Some [Lit rupee, ToLocaleString (predicted_price_per_sqft result), Lit ''/sq.ft''],
                data_distance = None\<rparr>) st
      in seq (withMap (openPopup mk \<circ> addLayer (MarkerLayer mk)) st1)
           (\<lambda>st2. let st2' = st2\<lparr>predictionMarker := Some mk\<rparr> in
              seq (case nearby_comparables result of
                     None \<Rightarrow> (Normal, st2')
                   | Some comps \<Rightarrow> comparableMarkers comps st2')
                (\<lambda>st3. if length (markers st3) > 0
                        then withMap (fitBounds (map latlng (mk # markers st3)) 0.2) st3
                        else withMap (setView coords 14) st3)))"

definition updateMap :: "prediction_result \<Rightarrow> app_state \<Rightarrow> completion \<times> app_state" where
  "updateMap result st = seq (clearMarkers st) (placeMarkers result)"

subsection \<open>The prediction client\<close>

definition showLoading :: "bool \<Rightarrow> app_state \<Rightarrow> app_state" where
  "showLoading show st = st\<lparr>page := (page st)\<lparr>loading_hidden := \<not> show\<rparr>\<rparr>"

text \<open>
  What the backend does with one request: \<^verbatim>\<open>fetch\<close> rejects, or it resolves to a
  response whose status is not 2xx, or to a 2xx response. The body of a response is text
  that \<^verbatim>\<open>response.json()\<close> parses or rejects; the parsed body of a 2xx response is
  taken to have the shape of a result, with or without the list of comparables.
\<close>

datatype 'a body = Unparseable | Parsed 'a

datatype backend_reply =
    NetworkError
  | NotOk "string option body"
  | Ok2xx "prediction_result body"

definition tryBlock :: "backend_reply \<Rightarrow> app_state \<Rightarrow> completion \<times> app_state" where
  \<comment> \<open>the \<^verbatim>\<open>try\<close> block of \<^verbatim>\<open>predictPrice\<close>\<close>
  "tryBlock reply st =
     (case reply of
        NetworkError \<Rightarrow> (Throw TypeError, st)
      | NotOk Unparseable \<Rightarrow> (Throw SyntaxError, st)
      | NotOk (Parsed detail) \<Rightarrow>
          (Throw (Error (if truthy (map_option (\<lambda>d. [Lit d]) detail) then the detail
                         else ''Prediction failed'')), st)
      | Ok2xx Unparseable \<Rightarrow> (Throw SyntaxError, st)
      | Ok2xx (Parsed result) \<Rightarrow> seq (Normal, displayResults result st) (updateMap result))"

definition catchBlock :: "formData \<Rightarrow> rng \<Rightarrow> app_state \<Rightarrow> (completion \<times> app_state) \<times> rng" where
  \<comment> \<open>the \<^verbatim>\<open>catch\<close> block of \<^verbatim>\<open>predictPrice\<close>\<close>
  "catchBlock fd g st =
     (let (mockResult, g') = generateMockPrediction fd g
      in (seq (Normal, displayResults mockResult st) (updateMap mockResult), g'))"

definition predictPrice ::
  "formData \<Rightarrow> backend_reply \<Rightarrow> rng \<Rightarrow> app_state \<Rightarrow> (completion \<times> app_state) \<times> rng" where
  \<comment> \<open>the completion is \<open>Normal\<close> when the promise resolves, a throw when it rejects;
      the \<^verbatim>\<open>finally\<close> block runs either way\<close>
  "predictPrice fd reply g st0 =
     (let st1 = showLoading True st0;
          ((c, st2), g') =
             (case tryBlock reply st1 of
                (Normal, st) \<Rightarrow> ((Normal, st), g)
              | (Throw e, st) \<Rightarrow> catchBlock fd g st)
      in ((c, showLoading False st2), g'))"

subsection \<open>Notions used in the statements\<close>


definition entry_matches :: "string \<Rightarrow> string \<times> rat \<times> rat \<Rightarrow> bool" where
  \<comment> \<open>the match as the specification words it: without regard to case, the location is
      part of the entry's name or the entry's name is part of the location\<close>
  "entry_matches loc e =
     (sublist (toLowerCase loc) (toLowerCase (fst e)) \<or> sublist (toLowerCase (fst e)) (toLowerCase loc))"


definition ready :: "dom \<Rightarrow> app_state" where
  \<comment> \<open>the state in which the first form submission finds the application: the module
      variables as declared, on the page \<open>d\<close>, after \<^verbatim>\<open>initMap()\<close>\<close>
  "ready d = snd (initMap (initial_state d))"

definition tracked :: "app_state \<Rightarrow> bool" where
  \<comment> \<open>the map exists, every marker it holds is referenced by \<^verbatim>\<open>markers\<close> or
      \<^verbatim>\<open>predictionMarker\<close>, and the stamp of every layer has been handed out\<close>
  "tracked st =
     (case map_widget st of
        None \<Rightarrow> False
      | Some m \<Rightarrow>
          (\<forall>l \<in> set (layers m). layer_id l < next_id st)
          \<and> (\<forall>mk \<in> set (markers_on m). mk \<in> set (markers st) \<or> predictionMarker st = Some mk))"

definition cleared :: "app_state \<Rightarrow> bool" where
  \<comment> \<open>the map exists and holds no marker, and the module variables reference none\<close>
  "cleared st =
     (case map_widget st of
        None \<Rightarrow> False
      | Some m \<Rightarrow>
          (\<forall>l \<in> set (layers m). layer_id l < next_id st)
          \<and> markers_on m = [] \<and> markers st = [] \<and> predictionMarker st = None)"

definition comps_of :: "prediction_result \<Rightarrow> comparable list" where
  \<comment> \<open>the comparables of a result, none when the field is missing\<close>
  "comps_of r = (case nearby_comparables r of None \<Rightarrow> [] | Some cs \<Rightarrow> cs)"

definition example_page :: dom where
  "example_page =
     \<lparr>results_hidden = True, total_price = [], price_per_sqft_text = [], ci_lower = [], ci_upper = [],
      comparables_list = Children [], loading_hidden = True\<rparr>"

definition example_result :: prediction_result where
  \<comment> \<open>a result as the backend may send it, with two comparables\<close>
  "example_result =
     \<lparr>success = True, result_location = ''Hebbal'',
      coordinates = \<lparr>latitude = 13.0358, longitude = 77.5970\<rparr>,
      predicted_price_per_sqft = 7000, total_estimated_price = 8400000,
      total_estimated_price_formatted = [Lit rupee, Lit ''84.00 Lakhs''],
      confidence_interval = \<lparr>lower = 6500, upper = 7500\<rparr>,
      nearby_comparables = Some
        [\<lparr>comp_location = ''Hebbal Kempapura'', comp_bhk = 2, comp_total_sqft = 1100,
          price_per_sqft = 6800, distance_km = 0.8, comp_latitude = 13.04, comp_longitude = 77.6\<rparr>,
         \<lparr>comp_location = ''Nagavara'', comp_bhk = 2, comp_total_sqft = 1250,
          price_per_sqft = 7100, distance_km = 1.9, comp_latitude = 13.03, comp_longitude = 77.61\<rparr>]\<rparr>"

definition example_request :: formData where
  "example_request =
     \<lparr>location = ''Koramangala'', total_sqft = 1500, bhk = 3, bath = 2, balcony = 1,
      area_type = ''Super built-up''\<rparr>"

definition example_draws :: rng where
  "example_draws = (\<lambda>n. of_nat ((7 * n + 3) mod 11) / 11, 0)"

section \<open>Properties\<close>

subsection \<open>Rounding and random draws\<close>











subsection \<open>The fields of a mock result\<close>




lemma mock_coordinates:
  "coordinates (fst (generateMockPrediction fd g)) =
     \<lparr>latitude = fst (fst (getMockCoordinates (location fd) g)),
      longitude = snd (fst (getMockCoordinates (location fd) g))\<rparr>"
  by (simp add: generateMockPrediction_def split: prod.splits)





subsection \<open>The confidence interval\<close>



subsection \<open>Resolving a location\<close>

lemma startsWith_prefix: "startsWith s t \<longleftrightarrow> prefix t s"
  by (induction s t rule: startsWith.induct) auto

lemma string_includes_sublist: "string_includes s t \<longleftrightarrow> sublist t s"
proof (induction s)
  case Nil
  then show ?case by simp
next
  case (Cons d s)
  then show ?case by (cases t) (simp_all add: startsWith_prefix sublist_Cons_right)
qed

lemma toLowerCase_char_idem: "toLowerCase_char (toLowerCase_char c) = toLowerCase_char c"
  by (simp add: toLowerCase_char_def Let_def)

lemma toLowerCase_idem: "toLowerCase (toLowerCase s) = toLowerCase s"
  by (simp add: toLowerCase_def toLowerCase_char_idem)

lemma findMatch_find:
  "findMatch entries (toLowerCase loc) = map_option snd (find (entry_matches loc) entries)"
  by (induction entries) (auto simp: entry_matches_def string_includes_sublist)

lemma whitefield_first:
  assumes "sublist (toLowerCase loc) (toLowerCase ''Whitefield'')"
  shows "findMatch locationMap (toLowerCase loc) = Some (12.9698, 77.7500)"
  using assms by (simp add: locationMap_def string_includes_sublist)

lemma getMockCoordinates_find:
  "getMockCoordinates loc g =
     (case find (entry_matches loc) locationMap of
        Some (key, coords) \<Rightarrow> (coords, g)
      | None \<Rightarrow> ((12.9716 + (fst g (snd g) - 0.5) * 0.15,
                  77.5946 + (fst g (Suc (snd g)) - 0.5) * 0.15), (fst g, Suc (Suc (snd g)))))"
  by (simp add: getMockCoordinates_def findMatch_find Math_random_def split: option.splits)

lemma getMockCoordinates_cong:
  "toLowerCase a = toLowerCase b \<Longrightarrow> getMockCoordinates a g = getMockCoordinates b g"
  by (simp add: getMockCoordinates_def)


text \<open>
  Claim C6. The table has twelve entries. \<^verbatim>\<open>getMockCoordinates\<close> returns the coordinates
  of the first entry, in the order of the table, whose name contains the location or is
  contained in it, case ignored on both sides (and draws nothing); only when no entry
  matches does it draw a point around the centre. Locations that differ in case only
  resolve alike. A mock result for \<^verbatim>\<open>whitefield\<close> and one for \<^verbatim>\<open>Whitefield Main\<close> both
  carry the coordinates [12.9698, 77.7500].
\<close>

theorem location_resolution_first_match_ignoring_case:
  "length locationMap = 12
   \<and> getMockCoordinates loc g =
       (case find (entry_matches loc) locationMap of
          Some (key, coords) \<Rightarrow> (coords, g)
        | None \<Rightarrow> ((12.9716 + (fst g (snd g) - 0.5) * 0.15,
                    77.5946 + (fst g (Suc (snd g)) - 0.5) * 0.15), (fst g, Suc (Suc (snd g)))))
   \<and> (toLowerCase a = toLowerCase b \<longrightarrow> getMockCoordinates a g = getMockCoordinates b g)
   \<and> coordinates (fst (generateMockPrediction (fd\<lparr>location := ''whitefield''\<rparr>) g))
        = \<lparr>latitude = 12.9698, longitude = 77.7500\<rparr>
   \<and> coordinates (fst (generateMockPrediction (fd'\<lparr>location := ''Whitefield Main''\<rparr>) g'))
        = \<lparr>latitude = 12.9698, longitude = 77.7500\<rparr>"
proof -
  have n: "length locationMap = 12" by (simp add: locationMap_def)
  have w1: "findMatch locationMap (toLowerCase ''whitefield'') = Some (12.9698, 77.7500)"
    by code_simp
  have w2: "findMatch locationMap (toLowerCase ''Whitefield Main'') = Some (12.9698, 77.7500)"
    by code_simp
  have c1: "coordinates (fst (generateMockPrediction (fd\<lparr>location := ''whitefield''\<rparr>) g))
        = \<lparr>latitude = 12.9698, longitude = 77.7500\<rparr>"
    using w1 by (simp add: mock_coordinates getMockCoordinates_def)
  have c2: "coordinates (fst (generateMockPrediction (fd'\<lparr>location := ''Whitefield Main''\<rparr>) g'))
        = \<lparr>latitude = 12.9698, longitude = 77.7500\<rparr>"
    using w2 by (simp add: mock_coordinates getMockCoordinates_def)
  from n getMockCoordinates_find[of loc g] getMockCoordinates_cong[of a b g] c1 c2
  show ?thesis by blast
qed

theorem location_resolution_first_match_ignoring_case_witness:
  "toLowerCase ''hsr layout'' = toLowerCase ''HSR Layout''
   \<and> getMockCoordinates ''hsr layout'' example_draws = ((12.9122, 77.6414), example_draws)
   \<and> getMockCoordinates ''HSR Layout'' example_draws = ((12.9122, 77.6414), example_draws)
   \<and> find (entry_matches ''Road'') locationMap = Some (''Sarjapur Road'', 12.9087, 77.6857)
   \<and> getMockCoordinates ''Road'' example_draws = ((12.9087, 77.6857), example_draws)"
proof -
  have h: "toLowerCase ''hsr layout'' = toLowerCase ''HSR Layout''" by code_simp
  have f1: "find (entry_matches ''HSR Layout'') locationMap = Some (''HSR Layout'', 12.9122, 77.6414)"
    by code_simp
  have f2: "find (entry_matches ''Road'') locationMap = Some (''Sarjapur Road'', 12.9087, 77.6857)"
    by code_simp
  note t1 = location_resolution_first_match_ignoring_case
              [of "''HSR Layout''" example_draws "''hsr layout''" "''HSR Layout''"]
  note t2 = location_resolution_first_match_ignoring_case [of "''Road''" example_draws]
  have a: "getMockCoordinates ''HSR Layout'' example_draws = ((12.9122, 77.6414), example_draws)"
    using t1 f1 by simp
  have b: "getMockCoordinates ''hsr layout'' example_draws = getMockCoordinates ''HSR Layout'' example_draws"
    using t1 h by blast
  have c: "getMockCoordinates ''Road'' example_draws = ((12.9087, 77.6857), example_draws)"
    using t2 f2 by simp
  from h a b c f2 show ?thesis by simp
qed

subsection \<open>Locations the table does not know\<close>



subsection \<open>The empty location\<close>

text \<open>
  Claim C10. A location that is, case ignored, a part of \<^verbatim>\<open>Whitefield\<close> resolves to the
  first entry of the table, [12.9698, 77.7500], and draws nothing. The empty string is
  such a location, so it never takes the fallback around the city centre: the longitude
  of its result is not within 0.075 degrees of the centre's.
\<close>

theorem part_of_whitefield_resolves_to_first_entry:
  assumes "sublist (toLowerCase loc) (toLowerCase ''Whitefield'')"
  shows "getMockCoordinates loc g = ((12.9698, 77.7500), g)
       \<and> getMockCoordinates [] g = ((12.9698, 77.7500), g)
       \<and> hd locationMap = (''Whitefield'', 12.9698, 77.7500)
       \<and> \<not> \<bar>longitude (coordinates (fst (generateMockPrediction (fd\<lparr>location := []\<rparr>) g)))
              - snd BANGALORE_CENTER\<bar> \<le> 0.075"
proof -
  have e: "sublist (toLowerCase []) (toLowerCase ''Whitefield'')"
    by (simp add: toLowerCase_def)
  have a: "getMockCoordinates loc g = ((12.9698, 77.7500), g)"
    using whitefield_first[OF assms] by (simp add: getMockCoordinates_def)
  have b: "getMockCoordinates [] g = ((12.9698, 77.7500), g)"
    using whitefield_first[OF e] by (simp add: getMockCoordinates_def)
  have c: "\<not> \<bar>longitude (coordinates (fst (generateMockPrediction (fd\<lparr>location := []\<rparr>) g)))
              - snd BANGALORE_CENTER\<bar> \<le> 0.075"
    by (simp add: mock_coordinates b BANGALORE_CENTER_def)
  have d: "hd locationMap = (''Whitefield'', 12.9698, 77.7500)"
    by (simp add: locationMap_def)
  from a b c d show ?thesis by blast
qed

theorem part_of_whitefield_resolves_to_first_entry_witness:
  "sublist (toLowerCase ''FIELD'') (toLowerCase ''Whitefield'')
   \<and> getMockCoordinates ''FIELD'' example_draws = ((12.9698, 77.7500), example_draws)
   \<and> getMockCoordinates [] example_draws = ((12.9698, 77.7500), example_draws)
   \<and> longitude (coordinates (fst (generateMockPrediction (example_request\<lparr>location := []\<rparr>) example_draws)))
       - snd BANGALORE_CENTER = 777 / 5000"
proof -
  have h: "sublist (toLowerCase ''FIELD'') (toLowerCase ''Whitefield'')" by code_simp
  have v: "longitude (coordinates (fst (generateMockPrediction (example_request\<lparr>location := []\<rparr>) example_draws)))
       - snd BANGALORE_CENTER = 777 / 5000"
    by code_simp
  from h v part_of_whitefield_resolves_to_first_entry[OF h, of example_draws]
  show ?thesis by blast
qed

subsection \<open>The predicted price\<close>




subsection \<open>The total price\<close>



subsection \<open>The mock comparables\<close>








subsection \<open>The markers on the map\<close>

lemma markers_on_of: "markers_on m = markers_of (layers m)"
  by (simp add: markers_on_def)

lemma markers_of_append: "markers_of (xs @ ys) = markers_of xs @ markers_of ys"
  by (simp add: markers_of_def)

lemma markers_of_Cons_Marker: "markers_of (MarkerLayer mk # ls) = mk # markers_of ls"
  by (simp add: markers_of_def)

lemma markers_of_MarkerLayer: "markers_of (map MarkerLayer mks) = mks"
  by (induction mks) (simp_all add: markers_of_def)

lemma markers_of_filter_Nil:
  assumes "\<forall>mk \<in> set (markers_of ls). \<not> P (MarkerLayer mk)"
  shows "markers_of (filter P ls) = []"
  using assms
proof (induction ls)
  case Nil
  then show ?case by (simp add: markers_of_def)
next
  case (Cons l ls)
  then show ?case by (cases l) (auto simp: markers_of_def)
qed

lemma withMap_Some:
  "map_widget st = Some m \<Longrightarrow> withMap f st = (Normal, st\<lparr>map_widget := Some (f m)\<rparr>)"
  by (simp add: withMap_def)

lemma removeEach_Some:
  "map_widget st = Some m \<Longrightarrow>
     removeEach mks st = (Normal, st\<lparr>map_widget := Some (fold removeLayer mks m)\<rparr>)"
  by (induction mks arbitrary: st m) (simp_all add: withMap_Some)

lemma layers_fold_removeLayer:
  "layers (fold removeLayer mks m) = filter (\<lambda>l. layer_id l \<notin> marker_id ` set mks) (layers m)"
  by (induction mks arbitrary: m) (auto simp: removeLayer_def intro: filter_cong)

lemma clearMarkers_cleared:
  assumes "tracked st"
  shows "fst (clearMarkers st) = Normal \<and> cleared (snd (clearMarkers st))
       \<and> page (snd (clearMarkers st)) = page st \<and> next_id (snd (clearMarkers st)) = next_id st"
proof -
  obtain m where m: "map_widget st = Some m"
    using assms by (auto simp: tracked_def split: option.splits)
  have ids: "\<forall>l \<in> set (layers m). layer_id l < next_id st"
    and tr: "\<forall>mk \<in> set (markers_of (layers m)). mk \<in> set (markers st) \<or> predictionMarker st = Some mk"
    using assms m by (simp_all add: tracked_def markers_on_of)
  let ?m1 = "fold removeLayer (markers st) m"
  show ?thesis
  proof (cases "predictionMarker st")
    case None
    have c: "clearMarkers st = (Normal, st\<lparr>map_widget := Some ?m1, markers := []\<rparr>)"
      by (simp add: clearMarkers_def removeEach_Some[OF m] None)
    have "markers_of (layers ?m1) = []"
      unfolding layers_fold_removeLayer using tr None by (intro markers_of_filter_Nil) auto
    then show ?thesis using ids None
      by (simp add: c cleared_def markers_on_of layers_fold_removeLayer)
  next
    case (Some p)
    have c: "clearMarkers st =
        (Normal, st\<lparr>map_widget := Some (removeLayer p ?m1), markers := [], predictionMarker := None\<rparr>)"
      by (simp add: clearMarkers_def removeEach_Some[OF m] Some withMap_Some)
    have l: "layers (removeLayer p ?m1) =
        filter (\<lambda>l. layer_id l \<noteq> marker_id p) (filter (\<lambda>l. layer_id l \<notin> marker_id ` set (markers st)) (layers m))"
      by (simp add: removeLayer_def layers_fold_removeLayer)
    have "markers_of (layers (removeLayer p ?m1)) = []"
      unfolding l filter_filter using tr Some by (intro markers_of_filter_Nil) auto
    then show ?thesis using ids
      by (simp add: c cleared_def markers_on_of l)
  qed
qed

lemma comparableMarker_effect:
  assumes "map_widget st = Some m" and "\<forall>l \<in> set (layers m). layer_id l < next_id st"
  shows "\<exists>mk. comparableMarker cmp st =
           (Normal, st\<lparr>map_widget := Some (m\<lparr>layers := layers m @ [MarkerLayer mk]\<rparr>),
                        markers := markers st @ [mk], next_id := Suc (next_id st)\<rparr>)
         \<and> marker_id mk = next_id st
         \<and> latlng mk = (comp_latitude cmp, comp_longitude cmp)
         \<and> className (marker_icon mk) = ''comparable-marker-icon''"
proof -
  define mk where "mk = fst (L_marker (comp_latitude cmp, comp_longitude cmp)
      \<lparr>className = ''comparable-marker-icon'', iconSize = (14, 14), iconAnchor = (7, 7)\<rparr>
      (createPopupContent
         \<lparr>data_title = [Lit (comp_location cmp)],
          data_details = Some [ToString (of_int (comp_bhk cmp)), Lit '' BHK '', Lit bullet, Lit '' '',
                               ToLocaleString (comp_total_sqft cmp), Lit '' sq.ft''],
          data_price = None,
          data_pricePerSqft = Some [Lit rupee, ToLocaleString (price_per_sqft cmp), Lit ''/sq.ft''],
          data_distance = Some [ToString (distance_km cmp), Lit '' km away'']\<rparr>) st)"
  have "next_id st \<notin> layer_id ` set (layers m)" using assms(2) by auto
  then show ?thesis
    using assms(1)
    by (intro exI[of _ mk])
       (simp add: mk_def comparableMarker_def L_marker_def withMap_def addLayer_def Let_def)
qed

lemma comparableMarkers_effect:
  assumes "map_widget st = Some m" and "\<forall>l \<in> set (layers m). layer_id l < next_id st"
  shows "\<exists>new. comparableMarkers cs st =
           (Normal, st\<lparr>map_widget := Some (m\<lparr>layers := layers m @ map MarkerLayer new\<rparr>),
                        markers := markers st @ new, next_id := next_id st + length cs\<rparr>)
         \<and> map latlng new = map (\<lambda>c. (comp_latitude c, comp_longitude c)) cs
         \<and> (\<forall>mk \<in> set new. className (marker_icon mk) = ''comparable-marker-icon''
                \<and> marker_id mk < next_id st + length cs)"
  using assms
proof (induction cs arbitrary: st m)
  case Nil
  then show ?case by (intro exI[of _ "[]"]) simp
next
  case (Cons c cs)
  obtain mk where mk: "comparableMarker c st =
           (Normal, st\<lparr>map_widget := Some (m\<lparr>layers := layers m @ [MarkerLayer mk]\<rparr>),
                        markers := markers st @ [mk], next_id := Suc (next_id st)\<rparr>)"
      "marker_id mk = next_id st" "latlng mk = (comp_latitude c, comp_longitude c)"
      "className (marker_icon mk) = ''comparable-marker-icon''"
    using comparableMarker_effect[OF Cons.prems, of c] by blast
  let ?st = "st\<lparr>map_widget := Some (m\<lparr>layers := layers m @ [MarkerLayer mk]\<rparr>),
                        markers := markers st @ [mk], next_id := Suc (next_id st)\<rparr>"
  let ?m = "m\<lparr>layers := layers m @ [MarkerLayer mk]\<rparr>"
  have a: "map_widget ?st = Some ?m" by simp
  have b: "\<forall>l \<in> set (layers ?m). layer_id l < next_id ?st"
    using Cons.prems(2) mk(2) by (auto simp: less_Suc_eq)
  from Cons.IH[OF a b] obtain new where new:
    "comparableMarkers cs ?st =
           (Normal, ?st\<lparr>map_widget := Some (?m\<lparr>layers := layers ?m @ map MarkerLayer new\<rparr>),
                        markers := markers ?st @ new, next_id := next_id ?st + length cs\<rparr>)"
    "map latlng new = map (\<lambda>c. (comp_latitude c, comp_longitude c)) cs"
    "\<forall>mk \<in> set new. className (marker_icon mk) = ''comparable-marker-icon''
                \<and> marker_id mk < next_id ?st + length cs"
    by blast
  show ?case
    using mk new by (intro exI[of _ "mk # new"]) simp
qed

lemma placeMarkers_effect:
  assumes "map_widget st = Some m" and "\<forall>l \<in> set (layers m). layer_id l < next_id st"
    and "markers st = []"
  shows "\<exists>p new v. placeMarkers r st =
           (Normal, st\<lparr>map_widget := Some (m\<lparr>layers := layers m @ MarkerLayer p # map MarkerLayer new,
                                              open_popup := Some (marker_id p), view := v\<rparr>),
                        markers := new, predictionMarker := Some p,
                        next_id := Suc (next_id st) + length (comps_of r)\<rparr>)
         \<and> latlng p = (latitude (coordinates r), longitude (coordinates r))
         \<and> className (marker_icon p) = ''prediction-marker-icon''
         \<and> marker_id p = next_id st
         \<and> map latlng new = map (\<lambda>c. (comp_latitude c, comp_longitude c)) (comps_of r)
         \<and> (\<forall>mk \<in> set new. className (marker_icon mk) = ''comparable-marker-icon''
                \<and> marker_id mk < Suc (next_id st) + length (comps_of r))"
proof -
  define p where "p = fst (L_marker (latitude (coordinates r), longitude (coordinates r))
      \<lparr>className = ''prediction-marker-icon'', iconSize = (24, 24), iconAnchor = (12, 12)\<rparr>
      (createPopupContent
         \<lparr>data_title = [Lit (result_location r)],
          data_details = None,
          data_price = Some (total_estimated_price_formatted r),
          data_pricePerSqft =
            Some [Lit rupee, ToLocaleString (predicted_price_per_sqft r), Lit ''/sq.ft''],
          data_distance = None\<rparr>) st)"
  have pid: "marker_id p = next_id st" by (simp add: p_def L_marker_def)
  have fresh: "marker_id p \<notin> layer_id ` set (layers m)" using assms(2) pid by auto
  let ?m2 = "m\<lparr>layers := layers m @ [MarkerLayer p], open_popup := Some (marker_id p)\<rparr>"
  let ?st2 = "st\<lparr>next_id := Suc (next_id st), map_widget := Some ?m2, predictionMarker := Some p\<rparr>"
  have a: "map_widget ?st2 = Some ?m2" by simp
  have b: "\<forall>l \<in> set (layers ?m2). layer_id l < next_id ?st2"
    using assms(2) pid by (auto simp: less_Suc_eq)
  obtain new where new:
    "comparableMarkers (comps_of r) ?st2 =
           (Normal, ?st2\<lparr>map_widget := Some (?m2\<lparr>layers := layers ?m2 @ map MarkerLayer new\<rparr>),
                        markers := markers ?st2 @ new, next_id := next_id ?st2 + length (comps_of r)\<rparr>)"
    "map latlng new = map (\<lambda>c. (comp_latitude c, comp_longitude c)) (comps_of r)"
    "\<forall>mk \<in> set new. className (marker_icon mk) = ''comparable-marker-icon''
                \<and> marker_id mk < next_id ?st2 + length (comps_of r)"
    using comparableMarkers_effect[OF a b, of "comps_of r"] by blast
  have step: "(case nearby_comparables r of None \<Rightarrow> (Normal, ?st2)
               | Some comps \<Rightarrow> comparableMarkers comps ?st2) = comparableMarkers (comps_of r) ?st2"
    by (simp add: comps_of_def split: option.splits)
  define v where "v = (if length new > 0 then FitBounds (map latlng (p # new)) 0.2
                       else SetView (latitude (coordinates r), longitude (coordinates r)) 14)"
  have L: "L_marker (latitude (coordinates r), longitude (coordinates r))
      \<lparr>className = ''prediction-marker-icon'', iconSize = (24, 24), iconAnchor = (12, 12)\<rparr>
      (createPopupContent
         \<lparr>data_title = [Lit (result_location r)],
          data_details = None,
          data_price = Some (total_estimated_price_formatted r),
          data_pricePerSqft =
            Some [Lit rupee, ToLocaleString (predicted_price_per_sqft r), Lit ''/sq.ft''],
          data_distance = None\<rparr>) st = (p, st\<lparr>next_id := Suc (next_id st)\<rparr>)"
    by (simp add: p_def L_marker_def)
  have "placeMarkers r st =
           (Normal, st\<lparr>map_widget := Some (m\<lparr>layers := layers m @ MarkerLayer p # map MarkerLayer new,
                                              open_popup := Some (marker_id p), view := v\<rparr>),
                        markers := new, predictionMarker := Some p,
                        next_id := Suc (next_id st) + length (comps_of r)\<rparr>)"
    using step new(1) assms(1,3) fresh
    by (simp add: placeMarkers_def Let_def L withMap_Some addLayer_def openPopup_def
          v_def fitBounds_def setView_def)
  moreover have "latlng p = (latitude (coordinates r), longitude (coordinates r))"
    "className (marker_icon p) = ''prediction-marker-icon''"
    by (simp_all add: p_def L_marker_def)
  ultimately show ?thesis using new(2,3) pid
    by (intro exI[of _ p] exI[of _ new] exI[of _ v]) simp
qed

lemma updateMap_tracked:
  assumes "tracked st"
  shows "\<exists>m p. fst (updateMap r st) = Normal
           \<and> map_widget (snd (updateMap r st)) = Some m
           \<and> predictionMarker (snd (updateMap r st)) = Some p
           \<and> markers_on m = p # markers (snd (updateMap r st))
           \<and> open_popup m = Some (marker_id p)
           \<and> latlng p = (latitude (coordinates r), longitude (coordinates r))
           \<and> className (marker_icon p) = ''prediction-marker-icon''
           \<and> map latlng (markers (snd (updateMap r st)))
               = map (\<lambda>c. (comp_latitude c, comp_longitude c)) (comps_of r)
           \<and> (\<forall>mk \<in> set (markers (snd (updateMap r st))).
                 className (marker_icon mk) = ''comparable-marker-icon'')
           \<and> page (snd (updateMap r st)) = page st
           \<and> tracked (snd (updateMap r st))"
proof -
  obtain st1 where c: "clearMarkers st = (Normal, st1)" and cl: "cleared st1"
    and pg: "page st1 = page st"
    using clearMarkers_cleared[OF assms] by (cases "clearMarkers st") auto
  obtain m where m: "map_widget st1 = Some m"
    and ids: "\<forall>l \<in> set (layers m). layer_id l < next_id st1"
    and none: "markers_on m = []" and mk0: "markers st1 = []"
    using cl by (auto simp: cleared_def split: option.splits)
  obtain p new v where e: "placeMarkers r st1 =
           (Normal, st1\<lparr>map_widget := Some (m\<lparr>layers := layers m @ MarkerLayer p # map MarkerLayer new,
                                              open_popup := Some (marker_id p), view := v\<rparr>),
                        markers := new, predictionMarker := Some p,
                        next_id := Suc (next_id st1) + length (comps_of r)\<rparr>)"
     and p: "latlng p = (latitude (coordinates r), longitude (coordinates r))"
            "className (marker_icon p) = ''prediction-marker-icon''"
            "marker_id p = next_id st1"
     and new: "map latlng new = map (\<lambda>c. (comp_latitude c, comp_longitude c)) (comps_of r)"
            "\<forall>mk \<in> set new. className (marker_icon mk) = ''comparable-marker-icon''
                \<and> marker_id mk < Suc (next_id st1) + length (comps_of r)"
    using placeMarkers_effect[OF m ids mk0, of r] by blast
  let ?m' = "m\<lparr>layers := layers m @ MarkerLayer p # map MarkerLayer new,
                open_popup := Some (marker_id p), view := v\<rparr>"
  have u: "updateMap r st = (Normal, st1\<lparr>map_widget := Some ?m',
                        markers := new, predictionMarker := Some p,
                        next_id := Suc (next_id st1) + length (comps_of r)\<rparr>)"
    by (simp add: updateMap_def c e)
  have on: "markers_on ?m' = p # new"
    using none
    by (simp add: markers_on_of markers_of_append markers_of_Cons_Marker markers_of_MarkerLayer)
  have tr: "tracked (snd (updateMap r st))"
    unfolding u tracked_def using ids p(3) new(2) on by (auto simp: less_Suc_eq)
  show ?thesis
    using p new on tr pg by (intro exI[of _ ?m'] exI[of _ p]) (simp add: u)
qed

lemma tracked_page: "tracked (st\<lparr>page := d\<rparr>) = tracked st"
  by (simp add: tracked_def split: option.splits)

lemma tracked_displayResults: "tracked (displayResults r st) = tracked st"
  by (simp add: displayResults_def tracked_page)

lemma tracked_showLoading: "tracked (showLoading b st) = tracked st"
  by (simp add: showLoading_def tracked_page)

lemma ready_eq:
  "ready d =
     \<lparr>page = d,
      map_widget = Some
        \<lparr>view = SetView BANGALORE_CENTER DEFAULT_ZOOM,
         layers = [TileLayer 0 TILE_URL,
                   MarkerLayer (the (predictionMarker (ready d)))],
         open_popup = None\<rparr>,
      markers = [],
      predictionMarker = predictionMarker (ready d),
      next_id = 2\<rparr>
   \<and> (\<exists>c. predictionMarker (ready d) = Some c \<and> marker_id c = 1 \<and> latlng c = BANGALORE_CENTER
          \<and> className (marker_icon c) = ''pulsing-marker'')"
  by (simp add: ready_def initMap_def initial_state_def addCenterMarker_def withMap_def
        L_marker_def addLayer_def Let_def)

lemma ready_tracked: "tracked (ready d)"
proof -
  obtain c where c: "predictionMarker (ready d) = Some c" "marker_id c = 1"
    using ready_eq[of d] by blast
  show ?thesis
    by (subst conjunct1[OF ready_eq]) (simp add: tracked_def markers_on_def markers_of_def c)
qed

lemma ready_center_marker:
  "\<exists>m c. map_widget (ready d) = Some m \<and> markers_on m = [c] \<and> predictionMarker (ready d) = Some c
         \<and> markers (ready d) = []
         \<and> className (marker_icon c) = ''pulsing-marker'' \<and> latlng c = BANGALORE_CENTER"
proof -
  obtain c where c: "predictionMarker (ready d) = Some c" "marker_id c = 1" "latlng c = BANGALORE_CENTER"
      "className (marker_icon c) = ''pulsing-marker''"
    using ready_eq[of d] by blast
  have m: "map_widget (ready d) = Some \<lparr>view = SetView BANGALORE_CENTER DEFAULT_ZOOM,
         layers = [TileLayer 0 TILE_URL, MarkerLayer c], open_popup = None\<rparr>"
    by (subst conjunct1[OF ready_eq]) (simp add: c)
  have k: "markers (ready d) = []"
    by (subst conjunct1[OF ready_eq]) simp
  show ?thesis using c m k by (simp add: markers_on_def markers_of_def)
qed

text \<open>
  Claim C8. In a state where every marker on the map is referenced by \<^verbatim>\<open>markers\<close> or
  \<^verbatim>\<open>predictionMarker\<close> (the state \<^verbatim>\<open>initMap\<close> leaves is one, its centre marker being the
  prediction marker, and \<^verbatim>\<open>updateMap\<close> leads from one to another), \<^verbatim>\<open>clearMarkers\<close> takes
  every marker off the map; and after \<^verbatim>\<open>updateMap\<close> with \<open>r1\<close> and then with \<open>r2\<close> the map
  holds exactly one prediction marker, at the coordinates of \<open>r2\<close>, one comparable marker
  for each comparable of \<open>r2\<close>, at its coordinates, and no other marker.
\<close>

theorem map_update_replaces_all_markers:
  assumes "tracked st"
  shows "fst (clearMarkers st) = Normal
       \<and> (\<exists>m0. map_widget (snd (clearMarkers st)) = Some m0 \<and> markers_on m0 = [])
       \<and> fst (updateMap r1 st) = Normal
       \<and> tracked (snd (updateMap r1 st))
       \<and> fst (updateMap r2 (snd (updateMap r1 st))) = Normal
       \<and> (\<exists>m p. map_widget (snd (updateMap r2 (snd (updateMap r1 st)))) = Some m
             \<and> filter (\<lambda>mk. className (marker_icon mk) = ''prediction-marker-icon'') (markers_on m) = [p]
             \<and> latlng p = (latitude (coordinates r2), longitude (coordinates r2))
             \<and> map latlng (filter (\<lambda>mk. className (marker_icon mk) = ''comparable-marker-icon'') (markers_on m))
                 = map (\<lambda>c. (comp_latitude c, comp_longitude c)) (comps_of r2)
             \<and> length (markers_on m) = 1 + length (comps_of r2))
       \<and> tracked (ready d)
       \<and> (\<exists>m c. map_widget (ready d) = Some m \<and> markers_on m = [c] \<and> predictionMarker (ready d) = Some c
             \<and> className (marker_icon c) = ''pulsing-marker'' \<and> latlng c = BANGALORE_CENTER)"
proof -
  have a: "fst (clearMarkers st) = Normal
       \<and> (\<exists>m0. map_widget (snd (clearMarkers st)) = Some m0 \<and> markers_on m0 = [])"
    using clearMarkers_cleared[OF assms] by (auto simp: cleared_def split: option.splits)
  have b: "fst (updateMap r1 st) = Normal" and t: "tracked (snd (updateMap r1 st))"
    using updateMap_tracked[OF assms, of r1] by blast+
  let ?st2 = "snd (updateMap r2 (snd (updateMap r1 st)))"
  obtain m p where u: "fst (updateMap r2 (snd (updateMap r1 st))) = Normal"
      "map_widget ?st2 = Some m" "markers_on m = p # markers ?st2"
      "latlng p = (latitude (coordinates r2), longitude (coordinates r2))"
      "className (marker_icon p) = ''prediction-marker-icon''"
      "map latlng (markers ?st2) = map (\<lambda>c. (comp_latitude c, comp_longitude c)) (comps_of r2)"
      "\<forall>mk \<in> set (markers ?st2). className (marker_icon mk) = ''comparable-marker-icon''"
    using updateMap_tracked[OF t, of r2] by blast
  have f1: "filter (\<lambda>mk. className (marker_icon mk) = ''prediction-marker-icon'') (markers ?st2) = []"
    using u(7) by (auto simp: filter_empty_conv)
  have f2: "filter (\<lambda>mk. className (marker_icon mk) = ''comparable-marker-icon'') (markers ?st2) = markers ?st2"
    using u(7) by (auto simp: filter_id_conv)
  have n: "length (markers ?st2) = length (comps_of r2)"
    using arg_cong[OF u(6), of length] by simp
  have c: "\<exists>m p. map_widget ?st2 = Some m
             \<and> filter (\<lambda>mk. className (marker_icon mk) = ''prediction-marker-icon'') (markers_on m) = [p]
             \<and> latlng p = (latitude (coordinates r2), longitude (coordinates r2))
             \<and> map latlng (filter (\<lambda>mk. className (marker_icon mk) = ''comparable-marker-icon'') (markers_on m))
                 = map (\<lambda>c. (comp_latitude c, comp_longitude c)) (comps_of r2)
             \<and> length (markers_on m) = 1 + length (comps_of r2)"
    using u(2,4,5,6) f1 f2 n by (intro exI[of _ m] exI[of _ p]) (simp add: u(3))
  from a b t u(1) c ready_tracked[of d] ready_center_marker[of d]
  show ?thesis by blast
qed

theorem map_update_replaces_all_markers_witness:
  "tracked (ready example_page)
   \<and> map (className \<circ> marker_icon) (markers_on (the (map_widget (ready example_page)))) = [''pulsing-marker'']
   \<and> map (className \<circ> marker_icon)
        (markers_on (the (map_widget (snd (updateMap example_result
           (snd (updateMap (fst (generateMockPrediction example_request example_draws)) (ready example_page)))))))) =
       [''prediction-marker-icon'', ''comparable-marker-icon'', ''comparable-marker-icon'']
   \<and> map latlng
        (markers_on (the (map_widget (snd (updateMap example_result
           (snd (updateMap (fst (generateMockPrediction example_request example_draws)) (ready example_page)))))))) =
       [(13.0358, 77.5970), (13.04, 77.6), (13.03, 77.61)]
   \<and> length (markers_on (the (map_widget (snd (updateMap example_result
           (snd (updateMap (fst (generateMockPrediction example_request example_draws)) (ready example_page))))))))
       = 1 + length (comps_of example_result)"
proof -
  have h: "tracked (ready example_page)" by (rule ready_tracked)
  have v1: "map (className \<circ> marker_icon) (markers_on (the (map_widget (ready example_page)))) = [''pulsing-marker'']"
    by code_simp
  have v2: "map (className \<circ> marker_icon)
        (markers_on (the (map_widget (snd (updateMap example_result
           (snd (updateMap (fst (generateMockPrediction example_request example_draws)) (ready example_page)))))))) =
       [''prediction-marker-icon'', ''comparable-marker-icon'', ''comparable-marker-icon'']"
    by code_simp
  have v3: "map latlng
        (markers_on (the (map_widget (snd (updateMap example_result
           (snd (updateMap (fst (generateMockPrediction example_request example_draws)) (ready example_page)))))))) =
       [(13.0358, 77.5970), (13.04, 77.6), (13.03, 77.61)]"
    by code_simp
  from map_update_replaces_all_markers[OF h, of "fst (generateMockPrediction example_request example_draws)" example_result example_page]
  have "length (markers_on (the (map_widget (snd (updateMap example_result
           (snd (updateMap (fst (generateMockPrediction example_request example_draws)) (ready example_page))))))))
       = 1 + length (comps_of example_result)"
    by auto
  with h v1 v2 v3 show ?thesis by (intro conjI)
qed

subsection \<open>The fallback of the prediction client\<close>

lemma comparablesLoop_length:
  "length (fst (comparablesLoop i coords b comparables g)) = length comparables + (4 - i)"
proof (induction i coords b comparables g rule: comparablesLoop.induct)
  case (1 i coords b comparables g)
  show ?case
  proof (cases "i < 4")
    case True
    obtain c g' where m: "mockComparable i coords b g = (c, g')" by (cases "mockComparable i coords b g")
    from "1.IH"[OF True m[symmetric] refl] True m
    show ?thesis by (subst comparablesLoop.simps) (simp add: Suc_diff_Suc)
  next
    case False
    then show ?thesis by (subst comparablesLoop.simps) simp
  qed
qed

lemma generateMockComparables_length: "length (fst (generateMockComparables coords b g)) = 4"
  using comparablesLoop_length[of 0 coords b "[]" g]
  by (auto simp: generateMockComparables_def split: prod.splits)

lemma mock_shape:
  "success (fst (generateMockPrediction fd g))
   \<and> result_location (fst (generateMockPrediction fd g)) = location fd
   \<and> (\<exists>cs. nearby_comparables (fst (generateMockPrediction fd g)) = Some cs \<and> length cs = 4)"
  by (simp add: generateMockPrediction_def generateMockComparables_length split: prod.splits)
   (metis fst_conv generateMockComparables_length)


lemma catchBlock_eq:
  "catchBlock fd g st =
     (updateMap (fst (generateMockPrediction fd g)) (displayResults (fst (generateMockPrediction fd g)) st),
      snd (generateMockPrediction fd g))"
  by (simp add: catchBlock_def split: prod.splits)

lemma tryBlock_failure:
  assumes "reply = NetworkError \<or> reply = NotOk b \<or> reply = Ok2xx Unparseable"
  shows "\<exists>e. tryBlock reply st = (Throw e, st)"
  using assms by (cases b) (auto simp: tryBlock_def)

text \<open>
  Whatever the backend replies, a submission in a tracked state completes normally and
  leaves a tracked state: the states the application reaches from \<^verbatim>\<open>initMap\<close> are
  tracked.
\<close>

lemma predictPrice_tracked:
  assumes "tracked st"
  shows "fst (fst (predictPrice fd reply g st)) = Normal
       \<and> tracked (snd (fst (predictPrice fd reply g st)))"
proof -
  let ?st1 = "showLoading True st"
  have t1: "tracked ?st1" using assms by (simp add: tracked_showLoading)
  have u: "fst (updateMap r (displayResults r s)) = Normal
         \<and> tracked (snd (updateMap r (displayResults r s)))" if "tracked s" for r s
    using updateMap_tracked[of "displayResults r s" r] that
    by (auto simp: tracked_displayResults)
  show ?thesis
  proof (cases "tryBlock reply ?st1")
    case (Pair c s)
    show ?thesis
    proof (cases c)
      case Normal
      then obtain r where r: "reply = Ok2xx (Parsed r)"
        using Pair by (auto simp: tryBlock_def split: backend_reply.splits body.splits)
      have "updateMap r (displayResults r ?st1) = (c, s)"
        using Pair by (simp add: r tryBlock_def)
      then have "tracked s" using u[OF t1, of r] by simp
      then show ?thesis
        using Pair Normal by (simp add: predictPrice_def tracked_showLoading)
    next
      case (Throw e)
      have s: "s = ?st1"
      proof (cases reply)
        case NetworkError
        then show ?thesis using Pair by (simp add: tryBlock_def)
      next
        case (NotOk b)
        then show ?thesis using Pair by (cases b) (simp_all add: tryBlock_def)
      next
        case (Ok2xx b)
        show ?thesis
        proof (cases b)
          case Unparseable
          then show ?thesis using Pair Ok2xx by (simp add: tryBlock_def)
        next
          case (Parsed r)
          then have "updateMap r (displayResults r ?st1) = (c, s)"
            using Pair by (simp add: Ok2xx tryBlock_def)
          then show ?thesis using u[OF t1, of r] Throw by simp
        qed
      qed
      let ?mock = "fst (generateMockPrediction fd g)"
      obtain s' where m: "updateMap ?mock (displayResults ?mock ?st1) = (Normal, s')" and ts: "tracked s'"
        using u[OF t1, of ?mock] by (cases "updateMap ?mock (displayResults ?mock ?st1)") auto
      show ?thesis
        using Pair Throw ts by (simp add: predictPrice_def catchBlock_eq s m tracked_showLoading)
    qed
  qed
qed

text \<open>
  Claim C1. When the backend call fails (\<^verbatim>\<open>fetch\<close> rejects, the status is not 2xx, or the
  body of a 2xx response does not parse), \<^verbatim>\<open>predictPrice\<close> completes normally: it
  renders the result of \<^verbatim>\<open>generateMockPrediction\<close> for the request, on the page and on the
  map, and hides the loading overlay. The mock result has \<open>success\<close> set, the location of
  the request and four comparables.
\<close>

theorem backend_failure_falls_back_to_mock:
  assumes "tracked st" and "reply = NetworkError \<or> reply = NotOk b \<or> reply = Ok2xx Unparseable"
  shows "\<exists>st'. predictPrice fd reply g st = ((Normal, st'), snd (generateMockPrediction fd g))
         \<and> st' = showLoading False (snd (updateMap (fst (generateMockPrediction fd g))
                    (displayResults (fst (generateMockPrediction fd g)) (showLoading True st))))
         \<and> \<not> results_hidden (page st') \<and> loading_hidden (page st')
         \<and> total_price (page st') = total_estimated_price_formatted (fst (generateMockPrediction fd g))
         \<and> price_per_sqft_text (page st') =
              [Lit rupee, ToLocaleString (predicted_price_per_sqft (fst (generateMockPrediction fd g))),
               Lit '' per sq.ft'']
         \<and> ci_lower (page st') =
              [Lit rupee, ToLocaleString (lower (confidence_interval (fst (generateMockPrediction fd g))))]
         \<and> ci_upper (page st') =
              [Lit rupee, ToLocaleString (upper (confidence_interval (fst (generateMockPrediction fd g))))]
         \<and> comparables_list (page st') =
              Children (map comparableItem (comps_of (fst (generateMockPrediction fd g))))
         \<and> (\<exists>m p. map_widget st' = Some m \<and> predictionMarker st' = Some p \<and> p \<in> set (markers_on m)
                \<and> latlng p = (latitude (coordinates (fst (generateMockPrediction fd g))),
                               longitude (coordinates (fst (generateMockPrediction fd g)))))
         \<and> success (fst (generateMockPrediction fd g))
         \<and> result_location (fst (generateMockPrediction fd g)) = location fd
         \<and> length (comps_of (fst (generateMockPrediction fd g))) = 4"
proof -
  let ?mock = "fst (generateMockPrediction fd g)"
  let ?st1 = "showLoading True st"
  let ?st2 = "displayResults ?mock ?st1"
  obtain e where t: "tryBlock reply ?st1 = (Throw e, ?st1)"
    using tryBlock_failure[OF assms(2)] by blast
  have tr: "tracked ?st2"
    using assms(1) by (simp add: tracked_displayResults tracked_showLoading)
  obtain st3 where um: "updateMap ?mock ?st2 = (Normal, st3)"
    using updateMap_tracked[OF tr, of ?mock] by (cases "updateMap ?mock ?st2") auto
  obtain m p where u:
      "map_widget st3 = Some m" "predictionMarker st3 = Some p" "markers_on m = p # markers st3"
      "latlng p = (latitude (coordinates ?mock), longitude (coordinates ?mock))"
      "page st3 = page ?st2"
    using updateMap_tracked[OF tr, of ?mock] unfolding um by auto
  have pp: "predictPrice fd reply g st = ((Normal, showLoading False st3), snd (generateMockPrediction fd g))"
    by (simp add: predictPrice_def t catchBlock_eq um)
  obtain cs where cs: "nearby_comparables ?mock = Some cs" "length cs = 4"
    and sh: "success ?mock" "result_location ?mock = location fd"
    using mock_shape[of fd g] by blast
  have c4: "comps_of ?mock = cs" by (simp add: comps_of_def cs)
  have cl: "comparables_list (page ?st2) = Children (map comparableItem cs)"
    using cs by (cases cs) (simp_all add: displayResults_def)
  have pg: "page (showLoading False st3) = (page ?st2)\<lparr>loading_hidden := True\<rparr>"
    by (simp add: showLoading_def u(5))
  have mp: "\<exists>m p. map_widget (showLoading False st3) = Some m
                \<and> predictionMarker (showLoading False st3) = Some p \<and> p \<in> set (markers_on m)
                \<and> latlng p = (latitude (coordinates ?mock), longitude (coordinates ?mock))"
    using u(1,2,3,4) by (intro exI[of _ m] exI[of _ p]) (simp add: showLoading_def)
  have d: "\<not> results_hidden (page ?st2)"
    "total_price (page ?st2) = total_estimated_price_formatted ?mock"
    "price_per_sqft_text (page ?st2) =
       [Lit rupee, ToLocaleString (predicted_price_per_sqft ?mock), Lit '' per sq.ft'']"
    "ci_lower (page ?st2) = [Lit rupee, ToLocaleString (lower (confidence_interval ?mock))]"
    "ci_upper (page ?st2) = [Lit rupee, ToLocaleString (upper (confidence_interval ?mock))]"
    by (simp_all add: displayResults_def)
  show ?thesis
    using pp mp sh cs(2) cl d
    by (intro exI[of _ "showLoading False st3"]) (simp add: pg c4 um)
qed

theorem backend_failure_falls_back_to_mock_witness:
  "tracked (ready example_page)
   \<and> fst (predictPrice example_request NetworkError example_draws (ready example_page))
       = fst (predictPrice example_request (NotOk (Parsed (Some ''Internal Server Error''))) example_draws
               (ready example_page))
   \<and> fst (predictPrice example_request NetworkError example_draws (ready example_page))
       = fst (predictPrice example_request (Ok2xx Unparseable) example_draws (ready example_page))
   \<and> fst (fst (predictPrice example_request NetworkError example_draws (ready example_page))) = Normal
   \<and> price_per_sqft_text (page (snd (fst (predictPrice example_request NetworkError example_draws
         (ready example_page)))))
       = [Lit rupee, ToLocaleString (724773 / 100), Lit '' per sq.ft'']
   \<and> loading_hidden (page (snd (fst (predictPrice example_request NetworkError example_draws
         (ready example_page)))))"
proof -
  have h: "tracked (ready example_page)" by (rule ready_tracked)
  have v: "predicted_price_per_sqft (fst (generateMockPrediction example_request example_draws)) = 724773 / 100"
    by code_simp
  note a = backend_failure_falls_back_to_mock[OF h disjI1[OF refl], of example_request example_draws]
  note b = backend_failure_falls_back_to_mock[OF h disjI2[OF disjI1[OF refl]], of example_request "Parsed (Some ''Internal Server Error'')" example_draws]
  note c = backend_failure_falls_back_to_mock[OF h disjI2[OF disjI2[OF refl]], of example_request example_draws]
  from a obtain st' where s:
    "predictPrice example_request NetworkError example_draws (ready example_page)
       = ((Normal, st'), snd (generateMockPrediction example_request example_draws))"
    "st' = showLoading False (snd (updateMap (fst (generateMockPrediction example_request example_draws))
                    (displayResults (fst (generateMockPrediction example_request example_draws))
                       (showLoading True (ready example_page)))))"
    "loading_hidden (page st')"
    "price_per_sqft_text (page st') =
       [Lit rupee, ToLocaleString (predicted_price_per_sqft (fst (generateMockPrediction example_request example_draws))),
        Lit '' per sq.ft'']"
    by blast
  from b s(2) have s2: "predictPrice example_request (NotOk (Parsed (Some ''Internal Server Error''))) example_draws
               (ready example_page) = ((Normal, st'), snd (generateMockPrediction example_request example_draws))"
    by auto
  from c s(2) have s3: "predictPrice example_request (Ok2xx Unparseable) example_draws
               (ready example_page) = ((Normal, st'), snd (generateMockPrediction example_request example_draws))"
    by auto
  show ?thesis
    using h s(3,4) by (simp add: s(1) s2 s3 v)
qed

subsection \<open>Who updates the map\<close>




end
